theory Spec2Isabelle
  imports Main "HOL-Library.AList"
begin

section \<open>The forwarding proxy of \<^verbatim>\<open>proxy-server.js\<close>\<close>

text \<open>
  The request handler passed to \<^verbatim>\<open>http.createServer\<close> is embedded as a pure function
  \<open>handler\<close>. What the handler asks of Node (\<^verbatim>\<open>url.parse\<close>, \<^verbatim>\<open>new URL\<close>,
  \<^verbatim>\<open>http.request\<close> / \<^verbatim>\<open>https.request\<close> and the events of the outbound request) is a
  parameter of the model, the record \<open>platform\<close>; every general theorem holds for every
  platform. What the handler does to the world is returned: the response written to
  \<^verbatim>\<open>res\<close> and the list of effects on the outbound side. The header lines that Node
  makes of the options of an outbound request are computed by \<open>ClientRequest\<close>. The
  two \<^verbatim>\<open>console\<close> calls and the timestamp are left out; they touch neither.
\<close>

subsection \<open>JavaScript values\<close>

text \<open>A header value of Node: a string, or a list of strings (\<^verbatim>\<open>set-cookie\<close>).\<close>

datatype hval = HStr string | HList "string list"

type_synonym headers = "(string \<times> hval) list"

text \<open>
  A plain object used as a dictionary is the list of its entries in the order in which
  the object enumerates them: the keys that are array indices first, in ascending order,
  then the other keys in the order of their creation. Keys are compared as property
  names are, character by character. \<^verbatim>\<open>Object.keys(o)\<close> is \<open>map fst\<close>, \<^verbatim>\<open>o[k]\<close> is
  \<open>map_of o k\<close> with \<open>None\<close> for \<^verbatim>\<open>undefined\<close>, \<^verbatim>\<open>delete o[k]\<close> is \<open>AList.delete\<close>, and
  the assignment \<^verbatim>\<open>o[k] = v\<close> is \<open>assign\<close>: an existing key keeps its place, a new
  array index goes to its place among the indices, any other new key goes to the end.
  For a key that is not an array index, \<^verbatim>\<open>host\<close> for one, \<open>assign\<close> is \<open>AList.update\<close>.
\<close>

text \<open>
  An array index is the canonical decimal numeral of a number below \<open>2\<^sup>3\<^sup>2 - 1\<close>.
\<close>

definition is_digit :: "char \<Rightarrow> bool" where
  "is_digit c = (48 \<le> (of_char c :: nat) \<and> (of_char c :: nat) \<le> 57)"

definition decimal_value :: "string \<Rightarrow> nat" where
  "decimal_value s = fold (\<lambda>c n. 10 * n + (of_char c - 48)) s 0"

definition array_index :: "string \<Rightarrow> nat option" where
  "array_index key =
     (case key of
        [] \<Rightarrow> None
      | c # cs \<Rightarrow>
          if list_all is_digit key \<and> (cs = [] \<or> c \<noteq> CHR ''0'') \<and>
             decimal_value key < 4294967295
          then Some (decimal_value key) else None)"

definition index_below :: "nat \<Rightarrow> string \<Rightarrow> bool" where
  "index_below i key = (case array_index key of Some j \<Rightarrow> j < i | None \<Rightarrow> False)"

definition assign :: "string \<Rightarrow> 'v \<Rightarrow> (string \<times> 'v) list \<Rightarrow> (string \<times> 'v) list" where
  "assign key v obj =
     (if key \<in> set (map fst obj) then AList.update key v obj
      else case array_index key of
             None \<Rightarrow> obj @ [(key, v)]
           | Some i \<Rightarrow>
               takeWhile (\<lambda>kv. index_below i (fst kv)) obj @
               (key, v) # dropWhile (\<lambda>kv. index_below i (fst kv)) obj)"



text \<open>\<^verbatim>\<open>String.prototype.toLowerCase\<close> on the letters of a header name.\<close>

definition toLowerCase :: "string \<Rightarrow> string" where
  "toLowerCase s =
     map (\<lambda>c. case map_of (zip ''ABCDEFGHIJKLMNOPQRSTUVWXYZ'' ''abcdefghijklmnopqrstuvwxyz'') c of
                Some l \<Rightarrow> l
              | None \<Rightarrow> c) s"

text \<open>A value of the parsed query object: a string, or a list when the key is repeated.\<close>

datatype qval = QStr string | QList "string list"

type_synonym query = "(string \<times> qval) list"

text \<open>\<^verbatim>\<open>Array.prototype.join\<close> on strings.\<close>

fun join :: "string \<Rightarrow> string list \<Rightarrow> string" where
  "join sep [] = []"
| "join sep [x] = x"
| "join sep (x # y # ys) = x @ sep @ join sep (y # ys)"

text \<open>\<^verbatim>\<open>!v\<close>: \<^verbatim>\<open>undefined\<close> and the empty string are falsy, every array is truthy.\<close>

fun falsy :: "qval option \<Rightarrow> bool" where
  "falsy None = True"
| "falsy (Some (QStr s)) = (s = [])"
| "falsy (Some (QList xs)) = False"

text \<open>The string conversion that \<^verbatim>\<open>new URL(v)\<close> applies to its argument.\<close>

fun ToString :: "qval option \<Rightarrow> string" where
  "ToString None = ''undefined''"
| "ToString (Some (QStr s)) = s"
| "ToString (Some (QList xs)) = join '','' xs"

text \<open>
  \<^verbatim>\<open>JSON.stringify\<close> of an object whose values are strings, the only shape the handler
  serialises. Characters are the 8-bit characters of \<open>string\<close>.
\<close>

definition hexdigit :: "nat \<Rightarrow> char" where
  "hexdigit n = (''0123456789abcdef'') ! (n mod 16)"

definition QuoteJSONChar :: "char \<Rightarrow> string" where
  "QuoteJSONChar c =
     (if c = CHR 0x08 then [CHR 0x5C, CHR ''b'']
      else if c = CHR 0x09 then [CHR 0x5C, CHR ''t'']
      else if c = CHR 0x0A then [CHR 0x5C, CHR ''n'']
      else if c = CHR 0x0C then [CHR 0x5C, CHR ''f'']
      else if c = CHR 0x0D then [CHR 0x5C, CHR ''r'']
      else if c = CHR 0x22 then [CHR 0x5C, CHR 0x22]
      else if c = CHR 0x5C then [CHR 0x5C, CHR 0x5C]
      else if (of_char c :: nat) < 32
        then [CHR 0x5C, CHR ''u'', CHR ''0'', CHR ''0'',
              hexdigit (of_char c div 16), hexdigit (of_char c)]
      else [c])"

definition QuoteJSONString :: "string \<Rightarrow> string" where
  "QuoteJSONString s = CHR 0x22 # concat (map QuoteJSONChar s) @ [CHR 0x22]"

definition JSON_stringify :: "(string \<times> string) list \<Rightarrow> string" where
  "JSON_stringify obj =
     ''{'' @ join '','' (map (\<lambda>(k, v). QuoteJSONString k @ '':'' @ QuoteJSONString v) obj) @ ''}''"

subsection \<open>The objects the handler reads and writes\<close>

text \<open>The inbound request \<^verbatim>\<open>req\<close>; \<open>body\<close> is what its stream yields.\<close>

record req =
  "method" :: string
  url :: string
  headers :: headers
  body :: string

text \<open>The fields of a WHATWG \<^verbatim>\<open>URL\<close> object that the handler reads.\<close>

record URL =
  protocol :: string
  hostname :: string
  port :: string
  pathname :: string
  search :: string

text \<open>
  \<^verbatim>\<open>target.port || (... ? 443 : 80)\<close> is the port string of the URL or a number.
\<close>

datatype jsport = PortString string | PortNumber nat

text \<open>The \<^verbatim>\<open>options\<close> object handed to \<^verbatim>\<open>protocol.request\<close>.\<close>

record options =
  hostname :: string
  port :: jsport
  path :: string
  "method" :: string
  headers :: headers

text \<open>The response of the target, \<^verbatim>\<open>proxyRes\<close>.\<close>

record proxyRes =
  statusCode :: nat
  headers :: headers
  body :: string

text \<open>What the handler writes to \<^verbatim>\<open>res\<close>: \<^verbatim>\<open>writeHead(status, headers)\<close> and the body.\<close>

record res =
  status :: nat
  headers :: headers
  body :: string

text \<open>The module chosen by \<^verbatim>\<open>target.protocol === 'https:' ? https : http\<close>.\<close>

datatype module = http | https

text \<open>
  The effects on the outbound side, in program order: the call
  \<^verbatim>\<open>protocol.request(options, ...)\<close>, then either \<^verbatim>\<open>req.pipe(proxyReq)\<close>, which writes
  the inbound body to the outbound request as it is, or \<^verbatim>\<open>proxyReq.end()\<close>.
\<close>

datatype effect = Request module options | Pipe string | End

text \<open>What the outbound request reports back: its \<^verbatim>\<open>error\<close> event or a response.\<close>

datatype upstream = Error string | Response proxyRes

text \<open>
  The platform. \<open>url_parse u\<close> is \<^verbatim>\<open>url.parse(u, true).query\<close>; \<open>new_URL s\<close> is
  \<^verbatim>\<open>new URL(s)\<close>, \<open>Inl\<close> carrying the message of the exception thrown; \<open>request\<close> is
  \<open>Some\<close> of a message when \<^verbatim>\<open>protocol.request\<close> throws at the call; \<open>exchange\<close> is
  the outcome of the outbound request given the body written to it. The call of
  \<^verbatim>\<open>url.parse\<close> stands outside the \<^verbatim>\<open>try\<close> block and is taken to return, and the
  outbound request reports one outcome: an \<^verbatim>\<open>error\<close> event after the response has
  begun is not part of the model.
\<close>

record platform =
  url_parse :: "string \<Rightarrow> query"
  new_URL :: "string \<Rightarrow> string + URL"
  request :: "module \<Rightarrow> options \<Rightarrow> string option"
  exchange :: "module \<Rightarrow> options \<Rightarrow> string \<Rightarrow> upstream"

record result =
  response :: res
  effects :: "effect list"

subsection \<open>The handler\<close>

text \<open>Lines 18 to 24: the answer to a preflight request.\<close>

definition preflight :: res where
  "preflight =
     \<lparr>status = 200,
      headers =
        [(''Access-Control-Allow-Origin'', HStr ''*''),
         (''Access-Control-Allow-Methods'', HStr ''GET, POST, PUT, DELETE, PROPFIND, HEAD, OPTIONS''),
         (''Access-Control-Allow-Headers'', HStr ''Content-Type, Authorization, Depth, User-Agent''),
         (''Access-Control-Max-Age'', HStr ''86400'')],
      body = []\<rparr>"

text \<open>Lines 37 and 38.\<close>

definition missing_target :: res where
  "missing_target =
     \<lparr>status = 400,
      headers = [(''Content-Type'', HStr ''application/json'')],
      body = JSON_stringify [(''error'', ''Missing target URL. Use ?url=...'')]\<rparr>"

text \<open>Lines 102 to 112: the \<^verbatim>\<open>catch\<close> block.\<close>

definition catch_block :: "string \<Rightarrow> res" where
  "catch_block message =
     \<lparr>status = 400,
      headers =
        [(''Content-Type'', HStr ''application/json''),
         (''Access-Control-Allow-Origin'', HStr ''*'')],
      body = JSON_stringify [(''error'', ''Invalid target URL''), (''message'', message)]\<rparr>"

text \<open>Lines 83 to 93: the listener of the \<^verbatim>\<open>error\<close> event of the outbound request.\<close>

definition on_error :: "string \<Rightarrow> res" where
  "on_error message =
     \<lparr>status = 502,
      headers =
        [(''Content-Type'', HStr ''application/json''),
         (''Access-Control-Allow-Origin'', HStr ''*'')],
      body = JSON_stringify [(''error'', ''Proxy request failed''), (''message'', message)]\<rparr>"

text \<open>
  Lines 47 to 60: the options object, its \<open>headers\<close> built by the spread of the inbound
  headers with \<^verbatim>\<open>host\<close> set, and then the two \<^verbatim>\<open>delete\<close> statements.
\<close>

definition build_options :: "URL \<Rightarrow> req \<Rightarrow> options" where
  "build_options target r =
     (let options =
        \<lparr>options.hostname = URL.hostname target,
         options.port =
           (if URL.port target \<noteq> [] then PortString (URL.port target)
            else if protocol target = ''https:'' then PortNumber 443 else PortNumber 80),
         path = pathname target @ search target,
         options.method = req.method r,
         options.headers = AList.update ''host'' (HStr (URL.hostname target)) (req.headers r)\<rparr>;
      options = options\<lparr>options.headers := AList.delete ''host'' (options.headers options)\<rparr>;
      options = options\<lparr>options.headers := AList.delete ''connection'' (options.headers options)\<rparr>
      in options)"

text \<open>
  Lines 64 to 79: the callback of the outbound request. Each key of
  \<^verbatim>\<open>Object.keys(proxyRes.headers)\<close> has a value, so the \<open>None\<close> case is never taken.
  \<^verbatim>\<open>responseHeaders\<close> is an object literal, on which an assignment to \<^verbatim>\<open>__proto__\<close>
  goes to the setter of the prototype and creates no entry.
\<close>

definition copy_header :: "headers \<Rightarrow> string \<Rightarrow> headers \<Rightarrow> headers" where
  "copy_header from key responseHeaders =
     (case map_of from key of
        Some v \<Rightarrow>
          if key = ''__proto__'' then responseHeaders else assign key v responseHeaders
      | None \<Rightarrow> responseHeaders)"

definition on_response :: "proxyRes \<Rightarrow> res" where
  "on_response pr =
     (let responseHeaders =
        [(''Access-Control-Allow-Origin'', HStr ''*''),
         (''Access-Control-Allow-Methods'', HStr ''GET, POST, PUT, DELETE, PROPFIND, HEAD, OPTIONS''),
         (''Access-Control-Allow-Headers'', HStr ''Content-Type, Authorization, Depth, User-Agent''),
         (''Access-Control-Expose-Headers'', HStr ''*'')];
      responseHeaders =
        fold (copy_header (proxyRes.headers pr)) (map fst (proxyRes.headers pr)) responseHeaders
      in \<lparr>status = statusCode pr, headers = responseHeaders, body = proxyRes.body pr\<rparr>)"

text \<open>Line 44: the module whose \<^verbatim>\<open>request\<close> is called.\<close>

definition select_protocol :: "URL \<Rightarrow> module" where
  "select_protocol target = (if protocol target = ''https:'' then https else http)"

text \<open>Lines 96 to 100: what is done to the write side of the outbound request.\<close>

definition forward_body :: "req \<Rightarrow> effect" where
  "forward_body r =
     (if req.method r \<noteq> ''GET'' \<and> req.method r \<noteq> ''HEAD'' \<and>
         req.method r \<noteq> ''DELETE'' \<and> req.method r \<noteq> ''PROPFIND''
      then Pipe (req.body r) else End)"

text \<open>The bytes the outbound request has been given once its write side is closed.\<close>

fun written :: "effect \<Rightarrow> string" where
  "written (Pipe b) = b"
| "written End = []"
| "written (Request m opts) = []"

text \<open>
  Lines 43 to 100, after \<^verbatim>\<open>new URL\<close> has returned \<open>target\<close>. An exception of
  \<^verbatim>\<open>protocol.request\<close> is caught by the same \<^verbatim>\<open>catch\<close> block.
\<close>

definition forward :: "platform \<Rightarrow> URL \<Rightarrow> req \<Rightarrow> result" where
  "forward P target r =
     (let protocol = select_protocol target;
          options = build_options target r
      in case request P protocol options of
           Some message \<Rightarrow>
             \<lparr>response = catch_block message, effects = [Request protocol options]\<rparr>
         | None \<Rightarrow>
             (let sent = forward_body r
              in \<lparr>response =
                    (case exchange P protocol options (written sent) of
                       Error message \<Rightarrow> on_error message
                     | Response pr \<Rightarrow> on_response pr),
                  effects = [Request protocol options, sent]\<rparr>))"

definition handler :: "platform \<Rightarrow> req \<Rightarrow> result" where
  "handler P r =
     (if req.method r = ''OPTIONS'' then \<lparr>response = preflight, effects = []\<rparr>
      else
        let parsedUrl = url_parse P (url r);
            targetUrl = map_of parsedUrl ''url''
        in if falsy targetUrl then \<lparr>response = missing_target, effects = []\<rparr>
           else
             (case new_URL P (ToString targetUrl) of
                Inl message \<Rightarrow> \<lparr>response = catch_block message, effects = []\<rparr>
              | Inr target \<Rightarrow> forward P target r))"

subsection \<open>The headers of the outbound request\<close>

text \<open>
  What the constructor of Node's \<^verbatim>\<open>ClientRequest\<close> does with the options it is given,
  as far as the headers go. Each entry of \<^verbatim>\<open>options.headers\<close> is set on the request by
  \<^verbatim>\<open>setHeader\<close>, which files the name and the value under the name in lower case. Then,
  when no header is filed under \<^verbatim>\<open>host\<close>, the header \<^verbatim>\<open>Host\<close> is set: the host name,
  in brackets when it is a bare IPv6 address, followed by a colon and the port when the
  port is not the default port of the module. The headers Node adds when it writes the
  head of the request (\<^verbatim>\<open>Connection\<close> and those that frame the body) are not part of
  this.
\<close>

definition defaultPort :: "module \<Rightarrow> nat" where
  "defaultPort agent = (case agent of http \<Rightarrow> 80 | https \<Rightarrow> 443)"

text \<open>\<^verbatim>\<open>options.port || defaultPort\<close> looks at the truthiness of the port.\<close>

fun truthy_port :: "jsport \<Rightarrow> bool" where
  "truthy_port (PortString s) = (s \<noteq> [])"
| "truthy_port (PortNumber n) = (n \<noteq> 0)"

text \<open>
  \<^verbatim>\<open>+port\<close>: the number itself, or the value of a string of decimal digits, which the
  port of a URL object is; \<open>None\<close> is \<^verbatim>\<open>NaN\<close>.
\<close>

fun ToNumber :: "jsport \<Rightarrow> nat option" where
  "ToNumber (PortNumber n) = Some n"
| "ToNumber (PortString s) = (if list_all is_digit s then Some (decimal_value s) else None)"

text \<open>\<^verbatim>\<open>':' + port\<close> appends the string itself, or the decimal numeral of the number.\<close>

fun decimal :: "nat \<Rightarrow> string" where
  "decimal n =
     (if n < 10 then [char_of (48 + n)]
      else decimal (n div 10) @ [char_of (48 + n mod 10)])"

fun port_string :: "jsport \<Rightarrow> string" where
  "port_string (PortString s) = s"
| "port_string (PortNumber n) = decimal n"

text \<open>
  The test for a bare IPv6 address: a colon, another colon after it, and a first
  character that is not the opening bracket.
\<close>

definition brackets_needed :: "string \<Rightarrow> bool" where
  "brackets_needed host =
     (case dropWhile (\<lambda>c. c \<noteq> CHR '':'') host of
        [] \<Rightarrow> False
      | c # rest \<Rightarrow> CHR '':'' \<in> set rest \<and> take 1 host \<noteq> ''['')"

text \<open>The headers of the request: under each name in lower case, the name and the value.\<close>

type_synonym outHeaders = "(string \<times> string \<times> hval) list"

definition setHeader :: "string \<Rightarrow> hval \<Rightarrow> outHeaders \<Rightarrow> outHeaders" where
  "setHeader name v out = assign (toLowerCase name) (name, v) out"

definition set_header_from :: "headers \<Rightarrow> string \<Rightarrow> outHeaders \<Rightarrow> outHeaders" where
  "set_header_from from key out =
     (case map_of from key of
        Some v \<Rightarrow> setHeader key v out
      | None \<Rightarrow> out)"

text \<open>\<^verbatim>\<open>!this.getHeader('host')\<close>: no such header, or the empty string as its value.\<close>

fun no_header :: "(string \<times> hval) option \<Rightarrow> bool" where
  "no_header None = True"
| "no_header (Some (name, HStr s)) = (s = [])"
| "no_header (Some (name, HList xs)) = False"

text \<open>The value of the header \<^verbatim>\<open>Host\<close> that the constructor computes.\<close>

definition hostHeader :: "module \<Rightarrow> options \<Rightarrow> string" where
  "hostHeader agent options =
     (let port = (if truthy_port (options.port options) then options.port options
                  else PortNumber (defaultPort agent));
          host = (if options.hostname options \<noteq> [] then options.hostname options
                  else ''localhost'');
          hostHeader = (if brackets_needed host then ''['' @ host @ '']'' else host)
      in if truthy_port port \<and> ToNumber port \<noteq> Some (defaultPort agent)
         then hostHeader @ '':'' @ port_string port else hostHeader)"

definition ClientRequest :: "module \<Rightarrow> options \<Rightarrow> outHeaders" where
  "ClientRequest agent options =
     (let out = fold (set_header_from (options.headers options))
                  (map fst (options.headers options)) []
      in if no_header (map_of out ''host'')
         then setHeader ''Host'' (HStr (hostHeader agent options)) out
         else out)"

text \<open>The header lines of the request, in the order in which they are written.\<close>

definition header_lines :: "outHeaders \<Rightarrow> headers" where
  "header_lines out = map snd out"

subsection \<open>Worked requests\<close>

text \<open>
  A platform for the worked requests below. On the request lines and URL strings listed
  it returns what Node returns for them; the worked requests use no others. The target
  \<^verbatim>\<open>example.test\<close> answers 201 with the header \<^verbatim>\<open>x-custom: v\<close> and the body
  \<^verbatim>\<open>hello\<close>; the target \<^verbatim>\<open>cors.test\<close> answers 200 with a header
  \<^verbatim>\<open>Access-Control-Allow-Origin\<close> of its own, which Node hands over in lower case;
  every other target refuses the connection.
\<close>

definition example_queries :: "(string \<times> query) list" where
  "example_queries =
     [(''/'', []),
      (''/?url='', [(''url'', QStr [])]),
      (''/?url=not-a-url'', [(''url'', QStr ''not-a-url'')]),
      (''/?url=http://example.test/foo'', [(''url'', QStr ''http://example.test/foo'')]),
      (''/?url=https://example.test/dav/'', [(''url'', QStr ''https://example.test/dav/'')]),
      (''/?url=https://example.test:8443/dav/?a=1'',
         [(''url'', QStr ''https://example.test:8443/dav/?a=1'')]),
      (''/?url=ftp://example.com/x'', [(''url'', QStr ''ftp://example.com/x'')]),
      (''/?url=http://cors.test/data'', [(''url'', QStr ''http://cors.test/data'')])]"

definition foo_URL :: URL where
  "foo_URL =
     \<lparr>protocol = ''http:'', URL.hostname = ''example.test'', URL.port = [],
      pathname = ''/foo'', search = []\<rparr>"

definition dav_URL :: URL where
  "dav_URL =
     \<lparr>protocol = ''https:'', URL.hostname = ''example.test'', URL.port = [],
      pathname = ''/dav/'', search = []\<rparr>"

definition dav_8443_URL :: URL where
  "dav_8443_URL =
     \<lparr>protocol = ''https:'', URL.hostname = ''example.test'', URL.port = ''8443'',
      pathname = ''/dav/'', search = ''?a=1''\<rparr>"

definition ftp_URL :: URL where
  "ftp_URL =
     \<lparr>protocol = ''ftp:'', URL.hostname = ''example.com'', URL.port = [],
      pathname = ''/x'', search = []\<rparr>"

definition cors_URL :: URL where
  "cors_URL =
     \<lparr>protocol = ''http:'', URL.hostname = ''cors.test'', URL.port = [],
      pathname = ''/data'', search = []\<rparr>"

definition example_URLs :: "(string \<times> URL) list" where
  "example_URLs =
     [(''http://example.test/foo'', foo_URL),
      (''https://example.test/dav/'', dav_URL),
      (''https://example.test:8443/dav/?a=1'', dav_8443_URL),
      (''ftp://example.com/x'', ftp_URL),
      (''http://cors.test/data'', cors_URL)]"

definition example_platform :: platform where
  "example_platform =
     \<lparr>url_parse = (\<lambda>u. case map_of example_queries u of Some q \<Rightarrow> q | None \<Rightarrow> []),
      new_URL = (\<lambda>s. case map_of example_URLs s of Some t \<Rightarrow> Inr t | None \<Rightarrow> Inl ''Invalid URL''),
      request = (\<lambda>m opts. None),
      exchange = (\<lambda>m opts sent.
        if options.hostname opts = ''example.test''
        then Response \<lparr>statusCode = 201, proxyRes.headers = [(''x-custom'', HStr ''v'')],
                       proxyRes.body = ''hello''\<rparr>
        else if options.hostname opts = ''cors.test''
        then Response
               \<lparr>statusCode = 200,
                proxyRes.headers =
                  [(''access-control-allow-origin'', HStr ''https://app.example''),
                   (''content-type'', HStr ''text/plain'')],
                proxyRes.body = ''data''\<rparr>
        else Error ''connect ECONNREFUSED'')\<rparr>"


text \<open>Inbound requests: lines without a target, and lines naming one.\<close>

definition example_req :: "string \<Rightarrow> string \<Rightarrow> string \<Rightarrow> req" where
  "example_req m u b =
     \<lparr>req.method = m, url = u,
      req.headers =
        [(''host'', HStr ''localhost:8080''),
         (''connection'', HStr ''keep-alive''),
         (''x-test'', HStr ''abc''),
         (''authorization'', HStr ''Basic dTpw'')],
      req.body = b\<rparr>"

section \<open>Properties\<close>

subsection \<open>Auxiliary facts\<close>

text \<open>A request that passes the three gates of the handler reaches the forwarding code.\<close>

lemma handler_forward:
  assumes "req.method r \<noteq> ''OPTIONS''"
    and "\<not> falsy (map_of (url_parse P (url r)) ''url'')"
    and "new_URL P (ToString (map_of (url_parse P (url r)) ''url'')) = Inr target"
  shows "handler P r = forward P target r"
  using assms by (simp add: handler_def Let_def)

lemma forward_effects:
  "take 1 (effects (forward P target r)) = [Request (select_protocol target) (build_options target r)]"
  by (simp add: forward_def Let_def split: option.splits)

lemma build_options_headers:
  "map_of (options.headers (build_options target r)) = map_of (req.headers r) |` (- {''host'', ''connection''})"
  by (auto simp: build_options_def Let_def delete_conv' update_conv' restrict_map_def fun_eq_iff)

lemma missing_target_body:
  \<open>res.body missing_target = ''{"error":"Missing target URL. Use ?url=..."}''\<close>
  by (simp add: missing_target_def JSON_stringify_def QuoteJSONString_def QuoteJSONChar_def)

text \<open>The first effect of a request that passes the gates is the outbound request.\<close>

lemma handler_requests:
  assumes "req.method r \<noteq> ''OPTIONS''"
    and "\<not> falsy (map_of (url_parse P (url r)) ''url'')"
    and "new_URL P (ToString (map_of (url_parse P (url r)) ''url'')) = Inr target"
  shows "take 1 (effects (handler P r)) = [Request (select_protocol target) (build_options target r)]"
  unfolding handler_forward [OF assms] by (rule forward_effects)

text \<open>The two \<^verbatim>\<open>delete\<close> statements leave the other entries where they were.\<close>

lemma build_options_headers_list:
  "options.headers (build_options target r) =
     filter (\<lambda>kv. fst kv \<noteq> ''host'' \<and> fst kv \<noteq> ''connection'') (req.headers r)"
proof -
  have del: "AList.delete ''connection'' (AList.delete ''host'' hs)
          = filter (\<lambda>kv. fst kv \<noteq> ''host'' \<and> fst kv \<noteq> ''connection'') hs" for hs :: headers
    by (induction hs) (auto simp: AList.delete_eq)
  have "options.headers (build_options target r)
          = AList.delete ''connection'' (AList.delete ''host'' (req.headers r))"
    by (simp add: build_options_def Let_def delete_update_same)
  then show ?thesis by (simp only: del)
qed

text \<open>The responses of the \<^verbatim>\<open>catch\<close> block and of the \<^verbatim>\<open>error\<close> listener carry the header.\<close>

lemma catch_block_cors:
  "map_of (res.headers (catch_block message)) ''Access-Control-Allow-Origin'' = Some (HStr ''*'')"
  by (simp add: catch_block_def)

lemma on_error_cors:
  "map_of (res.headers (on_error message)) ''Access-Control-Allow-Origin'' = Some (HStr ''*'')"
  by (simp add: on_error_def)

text \<open>The worked requests that name a target pass the gates.\<close>

lemma example_gates:
  assumes "map_of example_queries u = Some [(''url'', QStr s)]"
    and "s \<noteq> []" and "m \<noteq> ''OPTIONS''" and "map_of example_URLs s = Some t"
  shows "req.method (example_req m u b) \<noteq> ''OPTIONS''"
    and "\<not> falsy (map_of (url_parse example_platform (url (example_req m u b))) ''url'')"
    and "new_URL example_platform
           (ToString (map_of (url_parse example_platform (url (example_req m u b))) ''url''))
           = Inr t"
  using assms by (simp_all add: example_req_def example_platform_def)

lemma foo_gates:
  assumes "m \<noteq> ''OPTIONS''"
  shows "req.method (example_req m ''/?url=http://example.test/foo'' b) \<noteq> ''OPTIONS''"
    and "\<not> falsy (map_of (url_parse example_platform
                 (url (example_req m ''/?url=http://example.test/foo'' b))) ''url'')"
    and "new_URL example_platform
           (ToString (map_of (url_parse example_platform
              (url (example_req m ''/?url=http://example.test/foo'' b))) ''url''))
           = Inr foo_URL"
  by (rule example_gates [OF _ _ assms, of _ "''http://example.test/foo''"];
      simp add: example_queries_def example_URLs_def)+

lemma dav_gates:
  assumes "m \<noteq> ''OPTIONS''"
  shows "req.method (example_req m ''/?url=https://example.test/dav/'' b) \<noteq> ''OPTIONS''"
    and "\<not> falsy (map_of (url_parse example_platform
                 (url (example_req m ''/?url=https://example.test/dav/'' b))) ''url'')"
    and "new_URL example_platform
           (ToString (map_of (url_parse example_platform
              (url (example_req m ''/?url=https://example.test/dav/'' b))) ''url''))
           = Inr dav_URL"
  by (rule example_gates [OF _ _ assms, of _ "''https://example.test/dav/''"];
      simp add: example_queries_def example_URLs_def)+

lemma dav_8443_gates:
  assumes "m \<noteq> ''OPTIONS''"
  shows "req.method (example_req m ''/?url=https://example.test:8443/dav/?a=1'' b) \<noteq> ''OPTIONS''"
    and "\<not> falsy (map_of (url_parse example_platform
                 (url (example_req m ''/?url=https://example.test:8443/dav/?a=1'' b))) ''url'')"
    and "new_URL example_platform
           (ToString (map_of (url_parse example_platform
              (url (example_req m ''/?url=https://example.test:8443/dav/?a=1'' b))) ''url''))
           = Inr dav_8443_URL"
  by (rule example_gates [OF _ _ assms, of _ "''https://example.test:8443/dav/?a=1''"];
      simp add: example_queries_def example_URLs_def)+

lemma example_request_returns: "request example_platform m opts = None"
  by (simp add: example_platform_def)

lemma example_exchange_foo:
  "exchange example_platform m (build_options foo_URL r) sent =
     Response \<lparr>statusCode = 201, proxyRes.headers = [(''x-custom'', HStr ''v'')],
               proxyRes.body = ''hello''\<rparr>"
  by (simp add: example_platform_def build_options_def foo_URL_def Let_def)

lemma invalid_url_body:
  \<open>JSON_stringify [(''error'', ''Invalid target URL''), (''message'', ''Invalid URL'')]
     = ''{"error":"Invalid target URL","message":"Invalid URL"}''\<close>
  by (simp add: JSON_stringify_def QuoteJSONString_def QuoteJSONChar_def)

















text \<open>More worked requests.\<close>

lemma cors_gates:
  assumes "m \<noteq> ''OPTIONS''"
  shows "req.method (example_req m ''/?url=http://cors.test/data'' b) \<noteq> ''OPTIONS''"
    and "\<not> falsy (map_of (url_parse example_platform
                 (url (example_req m ''/?url=http://cors.test/data'' b))) ''url'')"
    and "new_URL example_platform
           (ToString (map_of (url_parse example_platform
              (url (example_req m ''/?url=http://cors.test/data'' b))) ''url''))
           = Inr cors_URL"
  by (rule example_gates [OF _ _ assms, of _ "''http://cors.test/data''"];
      simp add: example_queries_def example_URLs_def)+

lemma example_exchange_cors:
  "exchange example_platform m (build_options cors_URL r) sent =
     Response
       \<lparr>statusCode = 200,
        proxyRes.headers =
          [(''access-control-allow-origin'', HStr ''https://app.example''),
           (''content-type'', HStr ''text/plain'')],
        proxyRes.body = ''data''\<rparr>"
  by (simp add: example_platform_def build_options_def cors_URL_def Let_def)



lemma example_header_lines:
  "header_lines (ClientRequest http
     (build_options foo_URL (example_req ''GET'' ''/?url=http://example.test/foo'' []))) =
     [(''x-test'', HStr ''abc''), (''authorization'', HStr ''Basic dTpw''),
      (''Host'', HStr ''example.test'')]"
  by (simp add: header_lines_def ClientRequest_def hostHeader_def set_header_from_def
      setHeader_def assign_def array_index_def is_digit_def toLowerCase_def brackets_needed_def
      defaultPort_def build_options_def foo_URL_def example_req_def Let_def)

subsection \<open>Preflight\<close>

text \<open>
  C6. A request whose method is OPTIONS is answered with status 200, an empty body and
  exactly the four preflight headers, whatever its path, query, headers and body are and
  whatever the platform would do; nothing happens on the outbound side.
\<close>

theorem options_preflight:
  assumes "req.method r = ''OPTIONS''"
  shows "handler P r =
           \<lparr>response =
              \<lparr>status = 200,
               headers =
                 [(''Access-Control-Allow-Origin'', HStr ''*''),
                  (''Access-Control-Allow-Methods'',
                     HStr ''GET, POST, PUT, DELETE, PROPFIND, HEAD, OPTIONS''),
                  (''Access-Control-Allow-Headers'',
                     HStr ''Content-Type, Authorization, Depth, User-Agent''),
                  (''Access-Control-Max-Age'', HStr ''86400'')],
               body = []\<rparr>,
            effects = []\<rparr>"
  using assms by (simp add: handler_def preflight_def)

text \<open>An OPTIONS request that names a target is answered the same way.\<close>

theorem options_preflight_witness:
  "req.method (example_req ''OPTIONS'' ''/?url=http://example.test/foo'' []) = ''OPTIONS'' \<and>
   handler example_platform (example_req ''OPTIONS'' ''/?url=http://example.test/foo'' []) =
     \<lparr>response =
        \<lparr>status = 200,
         headers =
           [(''Access-Control-Allow-Origin'', HStr ''*''),
            (''Access-Control-Allow-Methods'',
               HStr ''GET, POST, PUT, DELETE, PROPFIND, HEAD, OPTIONS''),
            (''Access-Control-Allow-Headers'',
               HStr ''Content-Type, Authorization, Depth, User-Agent''),
            (''Access-Control-Max-Age'', HStr ''86400'')],
         body = []\<rparr>,
      effects = []\<rparr>"
proof -
  have h: "req.method (example_req ''OPTIONS'' ''/?url=http://example.test/foo'' []) = ''OPTIONS''"
    by (simp add: example_req_def)
  show ?thesis using h options_preflight [OF h, of example_platform] by simp
qed

subsection \<open>Requests without a target\<close>

text \<open>
  C4. A request other than OPTIONS whose parsed query has no \<^verbatim>\<open>url\<close> entry is answered
  with status 400 and the body \<^verbatim>\<open>{"error":"Missing target URL. Use ?url=..."}\<close>, and
  nothing happens on the outbound side.
\<close>

theorem missing_target_400:
  assumes "req.method r \<noteq> ''OPTIONS''"
    and "map_of (url_parse P (url r)) ''url'' = None"
  shows \<open>status (response (handler P r)) = 400 \<and>
         res.body (response (handler P r)) = ''{"error":"Missing target URL. Use ?url=..."}'' \<and>
         effects (handler P r) = []\<close>
  using assms by (simp add: handler_def Let_def missing_target_body) (simp add: missing_target_def)

theorem missing_target_400_witness:
  \<open>req.method (example_req ''POST'' ''/'' ''payload'') \<noteq> ''OPTIONS'' \<and>
   map_of (url_parse example_platform (url (example_req ''POST'' ''/'' ''payload''))) ''url'' = None \<and>
   status (response (handler example_platform (example_req ''POST'' ''/'' ''payload''))) = 400 \<and>
   res.body (response (handler example_platform (example_req ''POST'' ''/'' ''payload'')))
     = ''{"error":"Missing target URL. Use ?url=..."}'' \<and>
   effects (handler example_platform (example_req ''POST'' ''/'' ''payload'')) = []\<close>
proof -
  have h1: "req.method (example_req ''POST'' ''/'' ''payload'') \<noteq> ''OPTIONS''"
    by (simp add: example_req_def)
  have h2: "map_of (url_parse example_platform (url (example_req ''POST'' ''/'' ''payload''))) ''url''
              = None"
    by (simp add: example_req_def example_platform_def example_queries_def)
  show ?thesis using h1 h2 missing_target_400 [OF h1 h2] by simp
qed

text \<open>
  C10. A request other than OPTIONS whose \<^verbatim>\<open>url\<close> parameter is present with the empty
  string as its value gets the response of a missing target, which is not the response of
  an invalid target for any message: the test \<^verbatim>\<open>!targetUrl\<close> does not tell the empty
  string from \<^verbatim>\<open>undefined\<close>.
\<close>

theorem empty_url_is_missing_target:
  assumes "req.method r \<noteq> ''OPTIONS''"
    and "map_of (url_parse P (url r)) ''url'' = Some (QStr [])"
  shows \<open>handler P r =
           \<lparr>response =
              \<lparr>status = 400,
               headers = [(''Content-Type'', HStr ''application/json'')],
               body = ''{"error":"Missing target URL. Use ?url=..."}''\<rparr>,
            effects = []\<rparr> \<and>
         response (handler P r) \<noteq> catch_block message\<close>
proof -
  have "handler P r = \<lparr>response = missing_target, effects = []\<rparr>"
    using assms by (simp add: handler_def Let_def)
  moreover have \<open>missing_target =
      \<lparr>status = 400, headers = [(''Content-Type'', HStr ''application/json'')],
       body = ''{"error":"Missing target URL. Use ?url=..."}''\<rparr>\<close>
    using missing_target_body by (simp add: missing_target_def)
  moreover have "missing_target \<noteq> catch_block message"
    by (simp add: missing_target_def catch_block_def)
  ultimately show ?thesis by simp
qed

theorem empty_url_is_missing_target_witness:
  \<open>req.method (example_req ''GET'' ''/?url='' []) \<noteq> ''OPTIONS'' \<and>
   map_of (url_parse example_platform (url (example_req ''GET'' ''/?url='' []))) ''url''
     = Some (QStr []) \<and>
   handler example_platform (example_req ''GET'' ''/?url='' []) =
     \<lparr>response =
        \<lparr>status = 400,
         headers = [(''Content-Type'', HStr ''application/json'')],
         body = ''{"error":"Missing target URL. Use ?url=..."}''\<rparr>,
      effects = []\<rparr> \<and>
   response (handler example_platform (example_req ''GET'' ''/?url='' []))
     \<noteq> catch_block ''Invalid URL''\<close>
proof -
  have h1: "req.method (example_req ''GET'' ''/?url='' []) \<noteq> ''OPTIONS''"
    by (simp add: example_req_def)
  have h2: "map_of (url_parse example_platform (url (example_req ''GET'' ''/?url='' []))) ''url''
              = Some (QStr [])"
    by (simp add: example_req_def example_platform_def example_queries_def)
  show ?thesis
    using h1 h2 empty_url_is_missing_target [OF h1 h2, of "''Invalid URL''"] by blast
qed

text \<open>
  C1, at a request without a target: the response carries the single header
  \<^verbatim>\<open>Content-Type\<close>; the header \<^verbatim>\<open>Access-Control-Allow-Origin\<close>, which the responses of
  \<open>catch_block\<close> and \<open>on_error\<close> carry, is not among its headers.
\<close>

theorem missing_target_without_cors:
  "status (response (handler example_platform (example_req ''GET'' ''/'' []))) = 400 \<and>
   res.headers (response (handler example_platform (example_req ''GET'' ''/'' [])))
     = [(''Content-Type'', HStr ''application/json'')] \<and>
   map_of (res.headers (response (handler example_platform (example_req ''GET'' ''/'' []))))
     ''Access-Control-Allow-Origin'' = None"
  by (simp add: handler_def example_req_def example_platform_def example_queries_def
      missing_target_def)

subsection \<open>Requests with a target that does not parse\<close>

text \<open>
  C5, as amended. A request other than OPTIONS whose \<^verbatim>\<open>url\<close> value is truthy and is
  rejected by \<^verbatim>\<open>new URL\<close> is answered with status 400, the two headers of the
  \<^verbatim>\<open>catch\<close> block and the JSON object with \<^verbatim>\<open>error\<close> set to \<^verbatim>\<open>Invalid target URL\<close>
  and \<^verbatim>\<open>message\<close> set to the message of the exception; nothing happens on the outbound
  side.
\<close>

theorem invalid_target_400:
  assumes "req.method r \<noteq> ''OPTIONS''"
    and "\<not> falsy (map_of (url_parse P (url r)) ''url'')"
    and "new_URL P (ToString (map_of (url_parse P (url r)) ''url'')) = Inl message"
  shows "handler P r =
           \<lparr>response =
              \<lparr>status = 400,
               headers =
                 [(''Content-Type'', HStr ''application/json''),
                  (''Access-Control-Allow-Origin'', HStr ''*'')],
               body = JSON_stringify [(''error'', ''Invalid target URL''), (''message'', message)]\<rparr>,
            effects = []\<rparr>"
  using assms by (simp add: handler_def Let_def catch_block_def)

theorem invalid_target_400_witness:
  \<open>req.method (example_req ''GET'' ''/?url=not-a-url'' []) \<noteq> ''OPTIONS'' \<and>
   \<not> falsy (map_of (url_parse example_platform (url (example_req ''GET'' ''/?url=not-a-url'' []))) ''url'') \<and>
   new_URL example_platform
     (ToString (map_of (url_parse example_platform (url (example_req ''GET'' ''/?url=not-a-url'' []))) ''url''))
     = Inl ''Invalid URL'' \<and>
   handler example_platform (example_req ''GET'' ''/?url=not-a-url'' []) =
     \<lparr>response =
        \<lparr>status = 400,
         headers =
           [(''Content-Type'', HStr ''application/json''),
            (''Access-Control-Allow-Origin'', HStr ''*'')],
         body = ''{"error":"Invalid target URL","message":"Invalid URL"}''\<rparr>,
      effects = []\<rparr>\<close>
proof -
  let ?r = "example_req ''GET'' ''/?url=not-a-url'' []"
  have q: "map_of (url_parse example_platform (url ?r)) ''url'' = Some (QStr ''not-a-url'')"
    by (simp add: example_req_def example_platform_def example_queries_def)
  have h1: "req.method ?r \<noteq> ''OPTIONS''"
    by (simp add: example_req_def)
  have h2: "\<not> falsy (map_of (url_parse example_platform (url ?r)) ''url'')"
    by (simp add: q)
  have h3: "new_URL example_platform (ToString (map_of (url_parse example_platform (url ?r)) ''url''))
              = Inl ''Invalid URL''"
    by (simp add: q) (simp add: example_platform_def example_URLs_def)
  show ?thesis
    using h1 h2 h3 invalid_target_400 [OF h1 h2 h3] by (simp only: invalid_url_body) blast
qed

text \<open>
  C5, as stated, fails at a URL whose scheme is neither \<^verbatim>\<open>http\<close> nor \<^verbatim>\<open>https\<close>:
  \<^verbatim>\<open>new URL('ftp://example.com/x')\<close> returns a URL object, no test of the scheme follows,
  and the module \<^verbatim>\<open>http\<close> is asked for \<^verbatim>\<open>example.com\<close>, port 80, path \<^verbatim>\<open>/x\<close>.
\<close>

theorem unknown_scheme_forwarded:
  "new_URL example_platform ''ftp://example.com/x'' =
     Inr \<lparr>protocol = ''ftp:'', URL.hostname = ''example.com'', URL.port = [],
          pathname = ''/x'', search = []\<rparr> \<and>
   effects (handler example_platform (example_req ''GET'' ''/?url=ftp://example.com/x'' [])) =
     [Request http
        \<lparr>options.hostname = ''example.com'', options.port = PortNumber 80, path = ''/x'',
         options.method = ''GET'',
         options.headers = [(''x-test'', HStr ''abc''), (''authorization'', HStr ''Basic dTpw'')]\<rparr>,
      End]"
  by (simp add: handler_def forward_def build_options_def select_protocol_def forward_body_def
      example_req_def example_platform_def example_queries_def example_URLs_def ftp_URL_def
      Let_def)

subsection \<open>The outbound request\<close>

text \<open>
  C9. For a request that passes the gates with the URL object \<open>target\<close>, the outbound
  request is made with the port string of \<open>target\<close> when it is not empty, otherwise with
  443 when the scheme is \<^verbatim>\<open>https:\<close> and with 80 when it is not, and with the path that
  is \<open>pathname\<close> followed by \<open>search\<close>.
\<close>

theorem port_and_path:
  assumes "req.method r \<noteq> ''OPTIONS''"
    and "\<not> falsy (map_of (url_parse P (url r)) ''url'')"
    and "new_URL P (ToString (map_of (url_parse P (url r)) ''url'')) = Inr target"
  shows "take 1 (effects (handler P r))
           = [Request (select_protocol target) (build_options target r)] \<and>
         options.port (build_options target r)
           = (if URL.port target \<noteq> [] then PortString (URL.port target)
              else if protocol target = ''https:'' then PortNumber 443
              else PortNumber 80) \<and>
         path (build_options target r) = pathname target @ search target"
  using handler_requests [OF assms] by (simp add: build_options_def Let_def)

theorem port_and_path_witness:
  "req.method (example_req ''PUT'' ''/?url=https://example.test:8443/dav/?a=1'' ''x'') \<noteq> ''OPTIONS'' \<and>
   \<not> falsy (map_of (url_parse example_platform
              (url (example_req ''PUT'' ''/?url=https://example.test:8443/dav/?a=1'' ''x''))) ''url'') \<and>
   new_URL example_platform
     (ToString (map_of (url_parse example_platform
        (url (example_req ''PUT'' ''/?url=https://example.test:8443/dav/?a=1'' ''x''))) ''url''))
     = Inr dav_8443_URL \<and>
   take 1 (effects (handler example_platform
                     (example_req ''PUT'' ''/?url=https://example.test:8443/dav/?a=1'' ''x'')))
     = [Request https (build_options dav_8443_URL
                         (example_req ''PUT'' ''/?url=https://example.test:8443/dav/?a=1'' ''x''))] \<and>
   options.port
     (build_options dav_8443_URL
        (example_req ''PUT'' ''/?url=https://example.test:8443/dav/?a=1'' ''x''))
     = PortString ''8443'' \<and>
   path
     (build_options dav_8443_URL
        (example_req ''PUT'' ''/?url=https://example.test:8443/dav/?a=1'' ''x''))
     = ''/dav/?a=1'' \<and>
   options.port
     (build_options dav_URL (example_req ''GET'' ''/?url=https://example.test/dav/'' []))
     = PortNumber 443 \<and>
   options.port
     (build_options foo_URL (example_req ''GET'' ''/?url=http://example.test/foo'' []))
     = PortNumber 80"
proof -
  have m: "''PUT'' \<noteq> ''OPTIONS''" "''GET'' \<noteq> ''OPTIONS''" by simp_all
  note h = dav_8443_gates [OF m(1), of "''x''"]
  note h' = dav_gates [OF m(2), of "[]"]
  note h'' = foo_gates [OF m(2), of "[]"]
  show ?thesis
    using h port_and_path [OF h] port_and_path [OF h'] port_and_path [OF h'']
    by (simp add: select_protocol_def dav_8443_URL_def dav_URL_def foo_URL_def)
qed



text \<open>
  C8, as amended. For a request that passes the gates, the headers of the outbound
  request are the inbound headers without the entries \<^verbatim>\<open>host\<close> and \<^verbatim>\<open>connection\<close>:
  every other entry is there with its key and its value, in the inbound order.
\<close>

theorem other_headers_forwarded:
  assumes "req.method r \<noteq> ''OPTIONS''"
    and "\<not> falsy (map_of (url_parse P (url r)) ''url'')"
    and "new_URL P (ToString (map_of (url_parse P (url r)) ''url'')) = Inr target"
  shows "take 1 (effects (handler P r))
           = [Request (select_protocol target) (build_options target r)] \<and>
         options.headers (build_options target r)
           = filter (\<lambda>kv. fst kv \<noteq> ''host'' \<and> fst kv \<noteq> ''connection'') (req.headers r) \<and>
         map_of (options.headers (build_options target r))
           = map_of (req.headers r) |` (- {''host'', ''connection''})"
  using handler_requests [OF assms] build_options_headers_list build_options_headers by simp

theorem other_headers_forwarded_witness:
  "req.method (example_req ''PROPFIND'' ''/?url=https://example.test/dav/'' []) \<noteq> ''OPTIONS'' \<and>
   \<not> falsy (map_of (url_parse example_platform
              (url (example_req ''PROPFIND'' ''/?url=https://example.test/dav/'' []))) ''url'') \<and>
   new_URL example_platform
     (ToString (map_of (url_parse example_platform
        (url (example_req ''PROPFIND'' ''/?url=https://example.test/dav/'' []))) ''url''))
     = Inr dav_URL \<and>
   take 1 (effects (handler example_platform
                     (example_req ''PROPFIND'' ''/?url=https://example.test/dav/'' [])))
     = [Request https (build_options dav_URL
                         (example_req ''PROPFIND'' ''/?url=https://example.test/dav/'' []))] \<and>
   options.headers
     (build_options dav_URL (example_req ''PROPFIND'' ''/?url=https://example.test/dav/'' []))
     = [(''x-test'', HStr ''abc''), (''authorization'', HStr ''Basic dTpw'')]"
proof -
  have m: "''PROPFIND'' \<noteq> ''OPTIONS''" by simp
  note h = dav_gates [OF m, of "[]"]
  show ?thesis
    using h other_headers_forwarded [OF h]
    by (simp add: select_protocol_def dav_URL_def example_req_def)
qed

text \<open>
  C8, as stated, fails: the inbound headers without \<^verbatim>\<open>connection\<close> still hold
  \<^verbatim>\<open>host\<close>, which the headers of the outbound request do not.
\<close>

theorem host_not_forwarded_example:
  "AList.delete ''connection''
     (req.headers (example_req ''POST'' ''/?url=https://example.test:8443/dav/?a=1'' ''payload''))
     = [(''host'', HStr ''localhost:8080''), (''x-test'', HStr ''abc''),
        (''authorization'', HStr ''Basic dTpw'')] \<and>
   effects (handler example_platform
              (example_req ''POST'' ''/?url=https://example.test:8443/dav/?a=1'' ''payload'')) =
     [Request https
        \<lparr>options.hostname = ''example.test'', options.port = PortString ''8443'',
         path = ''/dav/?a=1'', options.method = ''POST'',
         options.headers = [(''x-test'', HStr ''abc''), (''authorization'', HStr ''Basic dTpw'')]\<rparr>,
      Pipe ''payload'']"
  by (simp add: handler_def forward_def build_options_def select_protocol_def forward_body_def
      example_req_def example_platform_def example_queries_def example_URLs_def dav_8443_URL_def
      Let_def)

subsection \<open>The body sent to the target\<close>

text \<open>
  C7. For a request that passes the gates and whose outbound request is created, the
  effects are the outbound request followed by \<^verbatim>\<open>proxyReq.end()\<close> when the method is
  GET, HEAD, DELETE or PROPFIND, and by the pipe of the inbound body otherwise; the
  target is given no body in the first case and the inbound body, as it is, in the second.
\<close>

theorem body_forwarding:
  assumes "req.method r \<noteq> ''OPTIONS''"
    and "\<not> falsy (map_of (url_parse P (url r)) ''url'')"
    and "new_URL P (ToString (map_of (url_parse P (url r)) ''url'')) = Inr target"
    and "request P (select_protocol target) (build_options target r) = None"
  shows "effects (handler P r) =
           [Request (select_protocol target) (build_options target r),
            if req.method r \<in> {''GET'', ''HEAD'', ''DELETE'', ''PROPFIND''} then End
            else Pipe (req.body r)] \<and>
         response (handler P r) =
           (case exchange P (select_protocol target) (build_options target r)
                   (if req.method r \<in> {''GET'', ''HEAD'', ''DELETE'', ''PROPFIND''} then []
                    else req.body r) of
              Error message \<Rightarrow> on_error message
            | Response pr \<Rightarrow> on_response pr)"
  using assms(4) unfolding handler_forward [OF assms(1,2,3)]
  by (simp add: forward_def forward_body_def Let_def)

theorem body_forwarding_witness:
  "req.method (example_req ''POST'' ''/?url=http://example.test/foo'' ''payload'') \<noteq> ''OPTIONS'' \<and>
   \<not> falsy (map_of (url_parse example_platform
              (url (example_req ''POST'' ''/?url=http://example.test/foo'' ''payload''))) ''url'') \<and>
   new_URL example_platform
     (ToString (map_of (url_parse example_platform
        (url (example_req ''POST'' ''/?url=http://example.test/foo'' ''payload''))) ''url''))
     = Inr foo_URL \<and>
   request example_platform (select_protocol foo_URL)
     (build_options foo_URL (example_req ''POST'' ''/?url=http://example.test/foo'' ''payload''))
     = None \<and>
   effects (handler example_platform
              (example_req ''POST'' ''/?url=http://example.test/foo'' ''payload''))
     = [Request http
          (build_options foo_URL
             (example_req ''POST'' ''/?url=http://example.test/foo'' ''payload'')),
        Pipe ''payload''] \<and>
   effects (handler example_platform
              (example_req ''GET'' ''/?url=http://example.test/foo'' ''payload''))
     = [Request http
          (build_options foo_URL
             (example_req ''GET'' ''/?url=http://example.test/foo'' ''payload'')),
        End]"
proof -
  have m: "''POST'' \<noteq> ''OPTIONS''" "''GET'' \<noteq> ''OPTIONS''" by simp_all
  note h = foo_gates [OF m(1), of "''payload''"] example_request_returns
  note h' = foo_gates [OF m(2), of "''payload''"] example_request_returns
  show ?thesis
    using h body_forwarding [OF h] body_forwarding [OF h']
    by (simp add: select_protocol_def foo_URL_def example_req_def)
qed

subsection \<open>The response relayed to the caller\<close>




end
